theory Spec2Isabelle
  imports Main "HOL-Library.Word" "HOL-Library.Signed_Division"
begin

unbundle bit_operations_syntax

section \<open>Int64 column decoders of parquet/type_int64.go\<close>

text \<open>
  The Go file holds three decoders for 64-bit integer columns (plain, dictionary,
  delta-binary-packed) and the dispatch function \<open>decodeInt64\<close> in front of them.
  Every Go method mutates its receiver and the destination slice and returns an
  \<open>error\<close>; here a method takes the receiver and the destination and returns both
  updated, together with the error (\<open>None\<close> is Go's \<open>nil\<close>). A run-time panic is a
  result of its own, since Go does not return from it.

  Go's \<open>int\<close> (64 bits) is modelled as \<open>int\<close>: the cursors and counters of this file
  are bounded by a slice length or by an \<open>int32\<close>, far from \<open>2 ^ 63\<close>. The \<open>int32\<close> and
  \<open>int64\<close> fields are words, so that the accumulator of the delta decoder wraps the
  way Go's \<open>int64\<close> does. Go's \<open>/\<close> and \<open>%\<close> truncate towards zero: \<open>sdiv\<close> and \<open>smod\<close>.
\<close>

type_synonym byte = "8 word"
type_synonym int32 = "32 word"
type_synonym int64 = "64 word"

datatype error = ErrNED | Err string

datatype panic =
    DivideByZero
  | IndexOutOfRange
  | SliceBoundsOutOfRange
  | MakeSliceLenOutOfRange
  | NilFuncCall
  | InvalidArgument

text \<open>The result of a decode call: a panic, or the receiver and the destination as
  the call left them, and the returned error.\<close>

datatype ('s, 'b) outcome = Panic panic | Done 's 'b "error option"

text \<open>\<open>data[pos:]\<close> panics unless \<open>0 \<le> pos \<le> len(data)\<close>.\<close>

definition slice_from :: "'a list \<Rightarrow> int \<Rightarrow> panic + 'a list" where
  "slice_from xs p =
     (if 0 \<le> p \<and> p \<le> int (length xs) then Inr (drop (nat p) xs)
      else Inl SliceBoundsOutOfRange)"

text \<open>\<open>binary.LittleEndian.Uint64\<close>: the first eight bytes, least significant first.\<close>

fun le_bytes :: "byte list \<Rightarrow> int64" where
  "le_bytes [] = 0"
| "le_bytes (b # bs) = ucast b OR push_bit 8 (le_bytes bs)"

definition littleEndianUint64 :: "byte list \<Rightarrow> int64" where
  "littleEndianUint64 bs = le_bytes (take 8 bs)"

subsection \<open>Dispatch\<close>

text \<open>A value of type \<open>interface{}\<close>: only boxed \<open>int64\<close>s are written by this file.\<close>

datatype iface = NilIface | BoxInt64 int64 | BoxOther string

text \<open>The dynamic type of the destination argument.\<close>

datatype dest = Int64Slice "int64 list" | IfaceSlice "iface list" | OtherDest

text \<open>The interface \<open>int64Decoder\<close> is a method \<open>decodeInt64\<close> on some receiver.\<close>

type_synonym 's int64Decoder = "'s \<Rightarrow> int64 list \<Rightarrow> ('s, int64 list) outcome"

definition copy_boxed :: "iface list \<Rightarrow> int64 list \<Rightarrow> iface list" where
  "copy_boxed dst b = map (\<lambda>k. BoxInt64 (b ! k)) [0..<length dst]"

fun decodeInt64 :: "'s int64Decoder \<Rightarrow> 's \<Rightarrow> dest \<Rightarrow> ('s, dest) outcome" where
  "decodeInt64 dec d (Int64Slice dst) =
     (case dec d dst of
        Panic p \<Rightarrow> Panic p
      | Done d' dst' err \<Rightarrow> Done d' (Int64Slice dst') err)"
| "decodeInt64 dec d (IfaceSlice dst) =
     (case dec d (replicate (length dst) 0) of
        Panic p \<Rightarrow> Panic p
      | Done d' b err \<Rightarrow> Done d' (IfaceSlice (copy_boxed dst b)) err)"
| "decodeInt64 dec d OtherDest = Panic InvalidArgument"

subsection \<open>Plain decoder\<close>

record int64PlainDecoder =
  data :: "byte list"
  pos :: int

definition int64PlainDecoder_init ::
  "int64PlainDecoder \<Rightarrow> byte list \<Rightarrow> int64PlainDecoder \<times> error option" where
  "int64PlainDecoder_init d bs = (d\<lparr>data := bs, pos := 0\<rparr>, None)"

text \<open>\<open>uint(x)\<close> of a Go \<open>int\<close>.\<close>

definition to_uint :: "int \<Rightarrow> int" where
  "to_uint x = x mod 2 ^ 64"

function plain_loop ::
  "int64PlainDecoder \<Rightarrow> int64 list \<Rightarrow> nat \<Rightarrow> (int64PlainDecoder, int64 list) outcome" where
  "plain_loop d dst k =
     (if k < length dst then
        (if pos d \<ge> int (length (data d)) then Done d dst (Some ErrNED)
         else if to_uint (pos d + 8) > to_uint (int (length (data d))) then
           Done d dst (Some (Err ''int64/plain: not enough bytes to decode an int64 number''))
         else
           (case slice_from (data d) (pos d) of
              Inl p \<Rightarrow> Panic p
            | Inr s \<Rightarrow>
                plain_loop (d\<lparr>pos := pos d + 8\<rparr>) (dst[k := littleEndianUint64 s]) (Suc k)))
      else Done d dst None)"
  by pat_completeness auto
termination
  by (relation "measure (\<lambda>(d, dst, k). length dst - k)") auto

declare plain_loop.simps [simp del]

definition int64PlainDecoder_decodeInt64 :: "int64PlainDecoder int64Decoder" where
  "int64PlainDecoder_decodeInt64 d dst = plain_loop d dst 0"

subsection \<open>Dictionary decoder\<close>

text \<open>
  The embedded \<open>dictDecoder\<close> is not part of this file: its state is the type
  parameter \<open>'k\<close> and its method \<open>decodeKeys\<close> is a parameter of the model, returning
  the keys, the error and the updated state. Keys are Go integers used as indices.
\<close>

record 'k int64DictDecoder =
  dictDecoder :: 'k
  values' :: "int64 list"

type_synonym 'k decodeKeys = "'k \<Rightarrow> int \<Rightarrow> 'k \<times> int list \<times> error option"

text \<open>\<open>for i, k := range keys { dst[i] = d.values[k] }\<close>\<close>

fun dict_fill :: "int64 list \<Rightarrow> int64 list \<Rightarrow> nat \<Rightarrow> int list \<Rightarrow> panic + int64 list" where
  "dict_fill vs dst n [] = Inr dst"
| "dict_fill vs dst n (k # ks) =
     (if k < 0 \<or> int (length vs) \<le> k then Inl IndexOutOfRange
      else if length dst \<le> n then Inl IndexOutOfRange
      else dict_fill vs (dst[n := vs ! nat k]) (Suc n) ks)"

definition int64DictDecoder_decodeInt64 ::
  "'k decodeKeys \<Rightarrow> 'k int64DictDecoder int64Decoder" where
  "int64DictDecoder_decodeInt64 decodeKeys d dst =
     (case decodeKeys (dictDecoder d) (int (length dst)) of
        (ks, keys, Some err) \<Rightarrow> Done (d\<lparr>dictDecoder := ks\<rparr>) dst (Some err)
      | (ks, keys, None) \<Rightarrow>
          (case dict_fill (values' d) dst 0 keys of
             Inl p \<Rightarrow> Panic p
           | Inr dst' \<Rightarrow> Done (d\<lparr>dictDecoder := ks\<rparr>) dst' None))"

subsection \<open>Primitive parsers\<close>

text \<open>
  The varint parsers \<open>varInt32\<close> and \<open>zigZagVarInt64\<close> and the table of bit unpackers
  \<open>unpack8Int64FuncByWidth\<close> are declared in other files of the package. The decoder
  is modelled over any such primitives: a parser returns the value and the number of
  bytes it consumed (\<open>n \<le> 0\<close> on failure), an unpacker returns the \<open>[8]int64\<close> of one
  group, read here only at the indices \<open>0..7\<close>.
\<close>

record prims =
  varInt32 :: "byte list \<Rightarrow> int32 \<times> int"
  zigZagVarInt64 :: "byte list \<Rightarrow> int64 \<times> int"
  unpack8Int64FuncByWidth :: "(byte list \<Rightarrow> int64 list) list"

subsection \<open>Delta-binary-packed decoder\<close>

text \<open>The struct shares its fields \<open>data\<close> and \<open>pos\<close> with the plain decoder's record.
  \<open>unpacker\<close> is a Go func value: \<open>None\<close> is \<open>nil\<close>.\<close>

record int64DeltaBinaryPackedDecoder = int64PlainDecoder +
  blockSize :: int32
  miniBlocks :: int32
  miniBlockSize :: int32
  numValues :: int32
  minDelta :: int64
  miniBlockWidths :: "byte list"
  i :: int
  value' :: int64
  miniBlock :: int
  miniBlockWidth :: int
  unpacker :: "(byte list \<Rightarrow> int64 list) option"
  miniBlockPos :: int
  miniBlockValues :: "int64 list"

type_synonym delta = int64DeltaBinaryPackedDecoder

text \<open>A step of a method that may panic, or else leaves the receiver and an error.\<close>

type_synonym 'd step = "panic + ('d \<times> error option)"

definition and_then :: "'d step \<Rightarrow> ('d \<Rightarrow> 'd step) \<Rightarrow> 'd step" where
  "and_then r f =
     (case r of
        Inl p \<Rightarrow> Inl p
      | Inr (d, Some e) \<Rightarrow> Inr (d, Some e)
      | Inr (d, None) \<Rightarrow> f d)"

definition read_blockSize :: "prims \<Rightarrow> delta \<Rightarrow> delta step" where
  "read_blockSize P d =
     (case slice_from (data d) (pos d) of
        Inl p \<Rightarrow> Inl p
      | Inr s \<Rightarrow>
          (let (v, n) = varInt32 P s; d1 = d\<lparr>blockSize := v\<rparr> in
           if n \<le> 0 then Inr (d1, Some (Err ''int64/delta: failed to read block size''))
           else Inr (d1\<lparr>pos := pos d1 + n\<rparr>, None)))"

text \<open>\<open>make\<close> panics on a negative length; the division on a zero divisor. The quotient
  of two \<open>int32\<close> is truncated and wraps (\<open>MinInt32 / -1\<close>).\<close>

definition read_miniBlocks :: "prims \<Rightarrow> delta \<Rightarrow> delta step" where
  "read_miniBlocks P d =
     (case slice_from (data d) (pos d) of
        Inl p \<Rightarrow> Inl p
      | Inr s \<Rightarrow>
          (let (v, n) = varInt32 P s; d1 = d\<lparr>miniBlocks := v\<rparr> in
           if n \<le> 0 then
             Inr (d1, Some (Err ''int64/delta: failed to read number of mini blocks''))
           else if sint (miniBlocks d1) < 0 then Inl MakeSliceLenOutOfRange
           else
             (let d2 = d1\<lparr>miniBlockWidths := replicate (nat (sint (miniBlocks d1))) 0,
                         pos := pos d1 + n\<rparr> in
              if miniBlocks d2 = 0 then Inl DivideByZero
              else
                Inr (d2\<lparr>miniBlockSize :=
                          word_of_int (sint (blockSize d2) sdiv sint (miniBlocks d2))\<rparr>,
                     None))))"

definition read_numValues :: "prims \<Rightarrow> delta \<Rightarrow> delta step" where
  "read_numValues P d =
     (case slice_from (data d) (pos d) of
        Inl p \<Rightarrow> Inl p
      | Inr s \<Rightarrow>
          (let (v, n) = varInt32 P s; d1 = d\<lparr>numValues := v\<rparr> in
           if n \<le> 0 then Inr (d1, Some (Err ''int64/delta: failed to read total value count''))
           else Inr (d1\<lparr>pos := pos d1 + n\<rparr>, None)))"

definition read_firstValue :: "prims \<Rightarrow> delta \<Rightarrow> delta step" where
  "read_firstValue P d =
     (case slice_from (data d) (pos d) of
        Inl p \<Rightarrow> Inl p
      | Inr s \<Rightarrow>
          (let (v, n) = zigZagVarInt64 P s; d1 = d\<lparr>value' := v\<rparr> in
           if n \<le> 0 then Inr (d1, Some (Err ''delta: failed to read first value''))
           else Inr (d1\<lparr>pos := pos d1 + n\<rparr>, None)))"

definition readPageHeader :: "prims \<Rightarrow> delta \<Rightarrow> delta step" where
  "readPageHeader P d =
     and_then (read_blockSize P d) (\<lambda>d.
     and_then (read_miniBlocks P d) (\<lambda>d.
     and_then (read_numValues P d) (read_firstValue P)))"

text \<open>\<open>copy(dst, src)\<close> overwrites the first \<open>min(len(dst), len(src))\<close> elements.\<close>

definition copy_bytes :: "'a list \<Rightarrow> 'a list \<Rightarrow> 'a list \<times> int" where
  "copy_bytes dst src =
     (let n = min (length dst) (length src) in (take n src @ drop n dst, int n))"

definition readBlockHeader :: "prims \<Rightarrow> delta \<Rightarrow> delta step" where
  "readBlockHeader P d =
     (case slice_from (data d) (pos d) of
        Inl p \<Rightarrow> Inl p
      | Inr s \<Rightarrow>
          (let (v, n) = zigZagVarInt64 P s; d1 = d\<lparr>minDelta := v\<rparr> in
           if n \<le> 0 then Inr (d1, Some (Err ''int64/delta: failed to read min delta''))
           else
             (let d2 = d1\<lparr>pos := pos d1 + n\<rparr> in
              case slice_from (data d2) (pos d2) of
                Inl p \<Rightarrow> Inl p
              | Inr s2 \<Rightarrow>
                  (let (ws, m) = copy_bytes (miniBlockWidths d2) s2;
                       d3 = d2\<lparr>miniBlockWidths := ws\<rparr> in
                   if m \<noteq> int (length (miniBlockWidths d3)) then
                     Inr (d3, Some (Err ''int64/delta: failed to read all bitwidths of miniblocks''))
                   else Inr (d3\<lparr>pos := pos d3 + m, miniBlock := 0\<rparr>, None)))))"

definition int64DeltaBinaryPackedDecoder_init ::
  "prims \<Rightarrow> delta \<Rightarrow> byte list \<Rightarrow> delta step" where
  "int64DeltaBinaryPackedDecoder_init P d bs =
     and_then (readPageHeader P (d\<lparr>data := bs, pos := 0, i := 0\<rparr>)) (readBlockHeader P)"

text \<open>Lines 192 to 204: at the start of a miniblock, read the next block header if the
  block is used up, then pick the miniblock's width and unpacker.\<close>

definition select_miniBlock :: "prims \<Rightarrow> delta \<Rightarrow> delta step" where
  "select_miniBlock P d =
     (if sint (miniBlockSize d) = 0 then Inl DivideByZero
      else if i d smod sint (miniBlockSize d) = 0 then
        and_then
          (if miniBlock d \<ge> sint (miniBlocks d) then readBlockHeader P d else Inr (d, None))
          (\<lambda>d.
             if miniBlock d < 0 \<or> int (length (miniBlockWidths d)) \<le> miniBlock d then
               Inl IndexOutOfRange
             else
               (let w = uint (miniBlockWidths d ! nat (miniBlock d)) in
                if int (length (unpack8Int64FuncByWidth P)) \<le> w then Inl IndexOutOfRange
                else
                  Inr (d\<lparr>miniBlockWidth := w,
                         unpacker := Some (unpack8Int64FuncByWidth P ! nat w),
                         miniBlockPos := 0,
                         miniBlock := miniBlock d + 1\<rparr>, None)))
      else Inr (d, None))"

text \<open>Lines 212 to 214: the skip over the padding of the last miniblock.\<close>

definition tail_skip :: "delta \<Rightarrow> delta" where
  "tail_skip d =
     (if i d + 8 \<ge> sint (numValues d) then
        d\<lparr>pos := pos d + (sint (miniBlockSize d) sdiv 8 * miniBlockWidth d - miniBlockPos d)\<rparr>
      else d)"

text \<open>Lines 205 to 214: unpack one group of eight deltas.\<close>

definition unpack_group :: "delta \<Rightarrow> delta step" where
  "unpack_group d =
     (let w = miniBlockWidth d in
      if pos d + w > int (length (data d)) then
        Inr (d, Some (Err ''int64/delta: not enough data''))
      else if pos d < 0 \<or> pos d + w < pos d then Inl SliceBoundsOutOfRange
      else
        (case unpacker d of
           None \<Rightarrow> Inl NilFuncCall
         | Some f \<Rightarrow>
             Inr (tail_skip
                    (d\<lparr>miniBlockValues := f (take (nat w) (drop (nat (pos d)) (data d))),
                       miniBlockPos := miniBlockPos d + w,
                       pos := pos d + w\<rparr>), None)))"

text \<open>Lines 191 to 215.\<close>

definition load_group :: "prims \<Rightarrow> delta \<Rightarrow> delta step" where
  "load_group P d =
     (if i d smod 8 = 0 then and_then (select_miniBlock P d) unpack_group
      else Inr (d, None))"

text \<open>Lines 216 to 219, after the destination slot has been written.\<close>

definition advance :: "delta \<Rightarrow> delta" where
  "advance d =
     d\<lparr>value' := value' d + (miniBlockValues d ! nat (i d smod 8) + minDelta d),
       i := i d + 1\<rparr>"

function delta_loop ::
  "prims \<Rightarrow> delta \<Rightarrow> int64 list \<Rightarrow> nat \<Rightarrow> (delta, int64 list) outcome" where
  "delta_loop P d dst n =
     (if n < length dst \<and> i d < sint (numValues d) then
        (case load_group P d of
           Inl p \<Rightarrow> Panic p
         | Inr (d1, Some e) \<Rightarrow> Done d1 dst (Some e)
         | Inr (d1, None) \<Rightarrow>
             (if i d1 smod 8 < 0 then Panic IndexOutOfRange
              else delta_loop P (advance d1) (dst[n := value' d1]) (Suc n)))
      else Done d dst (if n = 0 then Some (Err ''int64/delta: no more data'') else None))"
  by pat_completeness auto
termination
  by (relation "measure (\<lambda>(P, d, dst, n). length dst - n)") auto

declare delta_loop.simps [simp del]

definition int64DeltaBinaryPackedDecoder_decodeInt64 ::
  "prims \<Rightarrow> delta int64Decoder" where
  "int64DeltaBinaryPackedDecoder_decodeInt64 P d dst = delta_loop P d dst 0"

subsection \<open>The primitives of the wire format\<close>

text \<open>
  Modelled from the spec: the unsigned varint read by the external parser \<open>varInt32\<close>,
  which is not in this file. Little-endian base 128, the high bit of a byte is the
  continuation flag; the result is the value and the number of bytes consumed, 0 when
  the input ends inside the varint (\<open>bytesConsumed <= 0\<close> signals insufficient
  input). \<open>k\<close> counts the bytes read so far.
\<close>

fun uvarint :: "byte list \<Rightarrow> nat \<Rightarrow> int \<times> int" where
  "uvarint [] k = (0, 0)"
| "uvarint (b # bs) k =
     (if b < 128 then (uint b * 2 ^ (7 * k), int k + 1)
      else
        (let (v, n) = uvarint bs (Suc k) in
         if n \<le> 0 then (0, n) else (uint (b AND 127) * 2 ^ (7 * k) + v, n)))"

text \<open>Modelled from the spec: the external \<open>varInt32\<close>, the varint as a 32-bit value.\<close>

definition std_varInt32 :: "byte list \<Rightarrow> int32 \<times> int" where
  "std_varInt32 bs = (let (v, n) = uvarint bs 0 in (word_of_int v, n))"

text \<open>Modelled from the spec: the external \<open>zigZagVarInt64\<close>. Zig-zag interleaves the
  signs: \<open>2k\<close> stands for \<open>k\<close> and \<open>2k + 1\<close> for \<open>- k - 1\<close>.\<close>

definition std_zigZagVarInt64 :: "byte list \<Rightarrow> int64 \<times> int" where
  "std_zigZagVarInt64 bs =
     (let (v, n) = uvarint bs 0 in
      (if even v then word_of_int (v div 2) else - word_of_int (v div 2) - 1, n))"

text \<open>Modelled from the spec: the bytes of one packed group as a little-endian number.\<close>

fun le_int :: "byte list \<Rightarrow> int" where
  "le_int [] = 0"
| "le_int (b # bs) = uint b + 256 * le_int bs"

text \<open>Modelled from the spec: the external bit unpacker for width \<open>w\<close>. A group of eight
  values is \<open>w\<close> bytes, bit-packed little-endian; width 0 gives eight zeros.\<close>

definition std_unpack8 :: "nat \<Rightarrow> byte list \<Rightarrow> int64 list" where
  "std_unpack8 w bs =
     map (\<lambda>k. word_of_int ((le_int (take w bs) div 2 ^ (k * w)) mod 2 ^ w)) [0..<8]"

text \<open>Modelled from the spec: the external table \<open>unpack8Int64FuncByWidth\<close>, one unpacker
  for each width from 0 to 64, and the two parsers above.\<close>

definition std_prims :: prims where
  "std_prims =
     \<lparr>varInt32 = std_varInt32,
      zigZagVarInt64 = std_zigZagVarInt64,
      unpack8Int64FuncByWidth = map std_unpack8 [0..<65]\<rparr>"

text \<open>The zero value of the struct, as \<open>new(int64DeltaBinaryPackedDecoder)\<close> gives it.\<close>

definition zero_delta :: delta where
  "zero_delta =
     \<lparr>data = [], pos = 0, blockSize = 0, miniBlocks = 0, miniBlockSize = 0, numValues = 0,
      minDelta = 0, miniBlockWidths = [], i = 0, value' = 0, miniBlock = 0,
      miniBlockWidth = 0, unpacker = None, miniBlockPos = 0,
      miniBlockValues = replicate 8 0\<rparr>"

subsection \<open>Callers and observations\<close>

text \<open>The decoder a caller holds once \<open>init\<close> has returned.\<close>

definition after_init :: "prims \<Rightarrow> byte list \<Rightarrow> delta" where
  "after_init P bs =
     (case int64DeltaBinaryPackedDecoder_init P zero_delta bs of
        Inr (d, e) \<Rightarrow> d
      | Inl p \<Rightarrow> zero_delta)"

text \<open>What a caller sees of a call: the panic, if any, or else the cursor, the number
  of values produced so far, the destination and the error.\<close>

definition step_panic :: "'d step \<Rightarrow> panic option" where
  "step_panic r = (case r of Inl p \<Rightarrow> Some p | Inr x \<Rightarrow> None)"

definition step_error :: "'d step \<Rightarrow> error option option" where
  "step_error r = (case r of Inl p \<Rightarrow> None | Inr (d, e) \<Rightarrow> Some e)"

definition outcome_panic :: "('s, 'b) outcome \<Rightarrow> panic option" where
  "outcome_panic r = (case r of Panic p \<Rightarrow> Some p | Done d dst e \<Rightarrow> None)"

definition summary ::
  "(delta, int64 list) outcome \<Rightarrow> (int \<times> int \<times> int64 list \<times> error option) option" where
  "summary r = (case r of Panic p \<Rightarrow> None | Done d dst e \<Rightarrow> Some (pos d, i d, dst, e))"


definition returned :: "('s, 'b) outcome \<Rightarrow> ('b \<times> error option) option" where
  "returned r = (case r of Panic p \<Rightarrow> None | Done d dst e \<Rightarrow> Some (dst, e))"

text \<open>The methods \<open>decode\<close> of the three decoders: the dispatch function on the
  decoder's own \<open>decodeInt64\<close>.\<close>

definition int64PlainDecoder_decode ::
  "int64PlainDecoder \<Rightarrow> dest \<Rightarrow> (int64PlainDecoder, dest) outcome" where
  "int64PlainDecoder_decode d dst = decodeInt64 int64PlainDecoder_decodeInt64 d dst"

definition int64DictDecoder_decode ::
  "'k decodeKeys \<Rightarrow> 'k int64DictDecoder \<Rightarrow> dest \<Rightarrow> ('k int64DictDecoder, dest) outcome" where
  "int64DictDecoder_decode decodeKeys d dst =
     decodeInt64 (int64DictDecoder_decodeInt64 decodeKeys) d dst"

definition int64DeltaBinaryPackedDecoder_decode ::
  "prims \<Rightarrow> delta \<Rightarrow> dest \<Rightarrow> (delta, dest) outcome" where
  "int64DeltaBinaryPackedDecoder_decode P d dst =
     decodeInt64 (int64DeltaBinaryPackedDecoder_decodeInt64 P) d dst"

text \<open>A caller that decodes into one buffer after the other and stops at the first
  error; the buffers it did not reach stay as they were.\<close>

fun decode_chunks :: "prims \<Rightarrow> delta \<Rightarrow> int64 list list \<Rightarrow> (delta, int64 list) outcome" where
  "decode_chunks P d [] = Done d [] None"
| "decode_chunks P d (b # bs) =
     (case int64DeltaBinaryPackedDecoder_decodeInt64 P d b of
        Panic p \<Rightarrow> Panic p
      | Done d1 out (Some e) \<Rightarrow> Done d1 (out @ concat bs) (Some e)
      | Done d1 out None \<Rightarrow>
          (case decode_chunks P d1 bs of
             Panic p \<Rightarrow> Panic p
           | Done d2 outs e \<Rightarrow> Done d2 (out @ outs) e))"


text \<open>The loop of the delta decoder without its destination: the values it emits in
  at most \<open>k\<close> iterations, the decoder it leaves, and the error that stopped it.\<close>

fun run :: "prims \<Rightarrow> delta \<Rightarrow> nat \<Rightarrow> panic + (delta \<times> int64 list \<times> error option)" where
  "run P d 0 = Inr (d, [], None)"
| "run P d (Suc k) =
     (if i d < sint (numValues d) then
        (case load_group P d of
           Inl p \<Rightarrow> Inl p
         | Inr (d1, Some e) \<Rightarrow> Inr (d1, [], Some e)
         | Inr (d1, None) \<Rightarrow>
             (if i d1 smod 8 < 0 then Inl IndexOutOfRange
              else
                (case run P (advance d1) k of
                   Inl p \<Rightarrow> Inl p
                 | Inr (d2, vs, e) \<Rightarrow> Inr (d2, value' d1 # vs, e))))
      else Inr (d, [], None))"

definition loop_error :: "nat \<Rightarrow> error option \<Rightarrow> error option" where
  "loop_error n e =
     (case e of
        Some x \<Rightarrow> Some x
      | None \<Rightarrow> if n = 0 then Some (Err ''int64/delta: no more data'') else None)"

text \<open>Example pages. \<open>page_two_blocks\<close>: block size 8, one miniblock per block, 11
  values, first value 3; a block of min-delta -2 and width 2, then a block of min-delta
  1 and width 1.\<close>

definition page_two_blocks :: "byte list" where
  "page_two_blocks = [8, 1, 11, 6, 3, 2, 0x1B, 0xE4, 2, 1, 0x05]"

text \<open>\<open>page_five_tens\<close>: block size 8, one miniblock, 5 values, first value 10, then a block
  of min-delta 0 and width 0. \<open>page_truncated\<close>: 16 values declared, one block of 8
  with width 1, and nothing after it. \<open>page_short_tail\<close>: miniblocks of 16 values with
  width 1, 5 values declared, and only the byte of the first group. \<open>page_wrap\<close>: 2
  values, first value \<open>- 2 ^ 63\<close>, min-delta -1, width 0. \<open>page_down\<close>: 4 values, first
  value 10, min-delta -3, width 0. \<open>page_no_miniblocks\<close>
  declares 0 miniblocks per block, \<open>page_small_block\<close> a block of 1 value in 2
  miniblocks.\<close>

definition page_five_tens :: "byte list" where
  "page_five_tens = [8, 1, 5, 20, 0, 0]"


definition page_short_tail :: "byte list" where
  "page_short_tail = [16, 1, 5, 0, 0, 1, 0xAA]"



definition page_no_miniblocks :: "byte list" where
  "page_no_miniblocks = [8, 0, 5, 20, 0, 0]"

definition page_small_block :: "byte list" where
  "page_small_block = [1, 2, 5, 20, 0, 0, 0]"


text \<open>A key decoder that returns the given keys, whatever it is asked for.\<close>

definition const_keys :: "int list \<Rightarrow> unit decodeKeys" where
  "const_keys keys s n = (s, keys, None)"

section \<open>The loop and its trace\<close>

lemma delta_loop_run:
  "n \<le> length dst \<Longrightarrow>
   delta_loop P d dst n =
     (case run P d (length dst - n) of
        Inl p \<Rightarrow> Panic p
      | Inr (d', vs, e) \<Rightarrow>
          Done d' (take n dst @ vs @ drop (n + length vs) dst) (loop_error (n + length vs) e))"
proof (induction P d dst n rule: delta_loop.induct)
  case (1 P d dst n)
  show ?case
  proof (cases "n < length dst \<and> i d < sint (numValues d)")
    case False
    then show ?thesis using 1(2)
      by (cases "length dst - n") (auto simp: delta_loop.simps[of P d dst n] loop_error_def)
  next
    case True
    then obtain k where k: "length dst - n = Suc k" by (cases "length dst - n") auto
    show ?thesis
    proof (cases "load_group P d")
      case (Inl p)
      then show ?thesis using True k by (simp add: delta_loop.simps[of P d dst n])
    next
      case (Inr r)
      obtain d1 e where r: "r = (d1, e)" by (cases r)
      show ?thesis
      proof (cases e)
        case (Some x)
        then show ?thesis using True k Inr r
          by (simp add: delta_loop.simps[of P d dst n] loop_error_def)
      next
        case None
        show ?thesis
        proof (cases "i d1 smod 8 < 0")
          case True
          then show ?thesis using \<open>n < length dst \<and> i d < sint (numValues d)\<close> k Inr r None
            by (simp add: delta_loop.simps[of P d dst n])
        next
          case False
          have k': "length (dst[n := value' d1]) - Suc n = k" "length dst - Suc n = k"
            using k by simp_all
          have IH: "delta_loop P (advance d1) (dst[n := value' d1]) (Suc n) =
            (case run P (advance d1) (length (dst[n := value' d1]) - Suc n) of
               Inl p \<Rightarrow> Panic p
             | Inr (d', vs, e) \<Rightarrow>
                 Done d' (take (Suc n) (dst[n := value' d1]) @ vs @
                          drop (Suc n + length vs) (dst[n := value' d1]))
                      (loop_error (Suc n + length vs) e))"
            using 1(1)[OF True Inr r[symmetric] None False] True by simp
          have upd: "take (Suc n) (dst[n := v]) = take n dst @ [v]" for v
            using True by (simp add: take_Suc_conv_app_nth)
          show ?thesis
            using True k Inr r None False IH
            by (auto simp: delta_loop.simps[of P d dst n] k' upd split: sum.splits)
        qed
      qed
    qed
  qed
qed

lemma run_add:
  "run P d (a + b) =
     (case run P d a of
        Inl p \<Rightarrow> Inl p
      | Inr (d', vs, Some e) \<Rightarrow> Inr (d', vs, Some e)
      | Inr (d', vs, None) \<Rightarrow>
          (case run P d' b of
             Inl p \<Rightarrow> Inl p
           | Inr (d'', ws, e) \<Rightarrow> Inr (d'', vs @ ws, e)))"
proof (induction a arbitrary: d)
  case 0
  show ?case by (auto split: sum.splits)
next
  case (Suc a)
  show ?case
  proof (cases "i d < sint (numValues d)")
    case True
    then show ?thesis
      by (auto simp: Suc split: sum.splits option.splits prod.splits)
  next
    case False
    then show ?thesis
      by (cases b) (auto split: sum.splits option.splits prod.splits)
  qed
qed

lemma readBlockHeader_fields:
  "readBlockHeader P d = Inr (d1, e) \<Longrightarrow> i d1 = i d \<and> numValues d1 = numValues d"
  by (auto simp: readBlockHeader_def Let_def split: sum.splits prod.splits if_splits)

lemma select_miniBlock_fields:
  "select_miniBlock P d = Inr (d1, e) \<Longrightarrow> i d1 = i d \<and> numValues d1 = numValues d"
  by (auto simp: select_miniBlock_def and_then_def Let_def
      dest!: readBlockHeader_fields split: sum.splits prod.splits if_splits option.splits)

lemma unpack_group_fields:
  "unpack_group d = Inr (d1, e) \<Longrightarrow> i d1 = i d \<and> numValues d1 = numValues d"
  by (auto simp: unpack_group_def tail_skip_def Let_def split: if_splits option.splits)

lemma load_group_fields:
  "load_group P d = Inr (d1, e) \<Longrightarrow> i d1 = i d \<and> numValues d1 = numValues d"
  by (auto simp: load_group_def and_then_def
      dest!: select_miniBlock_fields unpack_group_fields
      split: sum.splits prod.splits if_splits option.splits)

lemma advance_fields: "i (advance d) = i d + 1" "numValues (advance d) = numValues d"
  by (simp_all add: advance_def)

lemma run_fields:
  "run P d k = Inr (d', vs, e) \<Longrightarrow>
     numValues d' = numValues d \<and> i d' = i d + int (length vs) \<and> length vs \<le> k \<and>
     (e = None \<longrightarrow> int (length vs) = min (int k) (max 0 (sint (numValues d) - i d)))"
proof (induction k arbitrary: d d' vs e)
  case 0
  then show ?case by auto
next
  case (Suc k)
  show ?case
  proof (cases "i d < sint (numValues d)")
    case False
    then show ?thesis using Suc.prems by auto
  next
    case True
    show ?thesis
    proof (cases "load_group P d")
      case (Inl p)
      then show ?thesis using Suc.prems True by simp
    next
      case (Inr r)
      obtain d1 e1 where r: "r = (d1, e1)" by (cases r)
      note f = load_group_fields[OF Inr[unfolded r]]
      show ?thesis
      proof (cases e1)
        case (Some x)
        then show ?thesis using Suc.prems True Inr r f by auto
      next
        case None
        show ?thesis
        proof (cases "run P (advance d1) k")
          case (Inl p)
          then show ?thesis using Suc.prems True Inr r None by (auto split: if_splits)
        next
          case (Inr q)
          obtain d2 ws e2 where q: "q = (d2, ws, e2)" by (cases q)
          have eqs: "d' = d2" "vs = value' d1 # ws" "e = e2"
            using Suc.prems True \<open>load_group P d = Inr r\<close> r None Inr q
            by (auto split: if_splits)
          from Suc.IH[OF Inr[unfolded q]] f True show ?thesis
            unfolding eqs by (auto simp: advance_fields)
        qed
      qed
    qed
  qed
qed

lemma decode_run:
  "int64DeltaBinaryPackedDecoder_decodeInt64 P d dst =
     (case run P d (length dst) of
        Inl p \<Rightarrow> Panic p
      | Inr (d', vs, e) \<Rightarrow> Done d' (vs @ drop (length vs) dst) (loop_error (length vs) e))"
  using delta_loop_run[of 0 dst P d]
  by (simp add: int64DeltaBinaryPackedDecoder_decodeInt64_def split: sum.splits prod.splits)

lemma decode_append:
  assumes "b \<noteq> []" "rest \<noteq> []"
    and "int (length b) + int (length rest) \<le> sint (numValues d) - i d"
  shows "int64DeltaBinaryPackedDecoder_decodeInt64 P d (b @ rest) =
     (case int64DeltaBinaryPackedDecoder_decodeInt64 P d b of
        Panic p \<Rightarrow> Panic p
      | Done d1 out (Some e) \<Rightarrow> Done d1 (out @ rest) (Some e)
      | Done d1 out None \<Rightarrow>
          (case int64DeltaBinaryPackedDecoder_decodeInt64 P d1 rest of
             Panic p \<Rightarrow> Panic p
           | Done d2 outs e \<Rightarrow> Done d2 (out @ outs) e))"
proof (cases "run P d (length b)")
  case (Inl p)
  then show ?thesis by (simp add: decode_run run_add)
next
  case (Inr r)
  obtain d1 vs e1 where r: "r = (d1, vs, e1)" by (cases r)
  note f = run_fields[OF Inr[unfolded r]]
  show ?thesis
  proof (cases e1)
    case (Some x)
    then show ?thesis using Inr r f
      by (simp add: decode_run run_add loop_error_def)
  next
    case None
    with f assms have len: "length vs = length b" by auto
    show ?thesis
    proof (cases "run P d1 (length rest)")
      case (Inl p)
      then show ?thesis using Inr r None len assms(1)
        by (simp add: decode_run run_add loop_error_def)
    next
      case (Inr q)
      obtain d2 ws e2 where q: "q = (d2, ws, e2)" by (cases q)
      note g = run_fields[OF Inr[unfolded q]]
      have "e2 = None \<Longrightarrow> ws \<noteq> []"
        using g f assms len by auto
      then show ?thesis using \<open>run P d (length b) = Inr r\<close> r None len assms(1) Inr q
        by (auto simp: decode_run run_add loop_error_def split: option.splits)
    qed
  qed
qed

















lemma plain_loop_cursor:
  "0 \<le> pos d \<Longrightarrow> pos d \<le> int (length (data d)) \<Longrightarrow> int (length (data d)) < 2 ^ 63 \<Longrightarrow>
   plain_loop d dst k = Done d' dst' e \<Longrightarrow>
     data d' = data d \<and> pos d \<le> pos d' \<and> pos d' \<le> int (length (data d')) \<and>
     length dst' = length dst"
proof (induction d dst k rule: plain_loop.induct)
  case (1 d dst k)
  have u: "to_uint (pos d + 8) = pos d + 8" "to_uint (int (length (data d))) = int (length (data d))"
    using "1.prems"(1,2,3) by (simp_all add: to_uint_def)
  show ?case
  proof (cases "k < length dst \<and> pos d < int (length (data d)) \<and>
                \<not> to_uint (pos d + 8) > to_uint (int (length (data d)))")
    case False
    then show ?thesis using "1.prems"
      by (auto simp: plain_loop.simps[of d dst k] split: if_splits)
  next
    case True
    then have le: "pos d + 8 \<le> int (length (data d))"
      unfolding u by simp
    obtain s where s: "slice_from (data d) (pos d) = Inr s"
      using "1.prems" by (simp add: slice_from_def)
    have "plain_loop (d\<lparr>pos := pos d + 8\<rparr>) (dst[k := littleEndianUint64 s]) (Suc k) = Done d' dst' e"
      using "1.prems"(4) True s by (simp add: plain_loop.simps[of d dst k])
    from "1.IH"[OF _ _ _ s _ _ _ this] True le "1.prems"(1,3) show ?thesis by auto
  qed
qed



lemma dict_fill_out_of_range:
  "k \<in> set keys \<Longrightarrow> int (length vs) \<le> k \<Longrightarrow> dict_fill vs dst n keys = Inl IndexOutOfRange"
  by (induction keys arbitrary: dst n) auto

section \<open>Chunking\<close>

text \<open>
  C2. Decoding into several non-empty buffers, one call after the other, gives the same
  values in the same order, the same decoder and the same result as one call with
  a single buffer of the total length, whenever that length does not exceed the number
  of values still to come (for a fresh decoder: the declared total). The cut points
  are arbitrary; they may fall inside a group of 8 or on a block boundary. This holds
  for every page, also one whose decoding fails on the way.
\<close>

theorem chunking_independent:
  assumes "bufs \<noteq> []" and "\<forall>b \<in> set bufs. b \<noteq> []"
    and "int (length (concat bufs)) \<le> sint (numValues d) - i d"
  shows "decode_chunks P d bufs = int64DeltaBinaryPackedDecoder_decodeInt64 P d (concat bufs)"
  using assms
proof (induction bufs arbitrary: d)
  case Nil
  then show ?case by simp
next
  case (Cons b bs)
  show ?case
  proof (cases "bs = []")
    case True
    then show ?thesis by (auto split: outcome.splits option.splits)
  next
    case False
    have b: "b \<noteq> []" and rest: "concat bs \<noteq> []" using Cons.prems False by auto
    have len: "int (length b) + int (length (concat bs)) \<le> sint (numValues d) - i d"
      using Cons.prems(3) by simp
    have step: "decode_chunks P d1 bs = int64DeltaBinaryPackedDecoder_decodeInt64 P d1 (concat bs)"
      if H: "int64DeltaBinaryPackedDecoder_decodeInt64 P d b = Done d1 out None" for d1 out
    proof -
      obtain vs e where run: "run P d (length b) = Inr (d1, vs, e)" and "loop_error (length vs) e = None"
        using H by (auto simp: decode_run split: sum.splits prod.splits)
      then have "e = None" by (auto simp: loop_error_def split: option.splits)
      with run_fields[OF run] len b have "numValues d1 = numValues d" "i d1 = i d + int (length b)"
        by auto
      then show ?thesis using Cons.IH[of d1] False Cons.prems len by simp
    qed
    show ?thesis
    proof (cases "int64DeltaBinaryPackedDecoder_decodeInt64 P d b")
      case (Panic p)
      then show ?thesis by (simp add: decode_append[OF b rest len])
    next
      case (Done d1 out e)
      show ?thesis
      proof (cases e)
        case None
        with Done step[of d1 out] show ?thesis by (simp add: decode_append[OF b rest len])
      next
        case (Some x)
        with Done show ?thesis by (simp add: decode_append[OF b rest len])
      qed
    qed
  qed
qed


theorem chunking_independent_witness:
  "int (length (concat [[0, 0, 0], [0, 0, 0, 0, 0, 0], [0, 0 :: int64]]))
     \<le> sint (numValues (after_init std_prims page_two_blocks))
        - i (after_init std_prims page_two_blocks) \<and>
   decode_chunks std_prims (after_init std_prims page_two_blocks)
     [[0, 0, 0], [0, 0, 0, 0, 0, 0], [0, 0]] =
   int64DeltaBinaryPackedDecoder_decodeInt64 std_prims (after_init std_prims page_two_blocks)
     (concat [[0, 0, 0], [0, 0, 0, 0, 0, 0], [0, 0]])"
proof -
  have h1: "[[0, 0, 0], [0, 0, 0, 0, 0, 0], [0, 0 :: int64]] \<noteq> []" by simp
  have h2: "\<forall>b \<in> set [[0, 0, 0], [0, 0, 0, 0, 0, 0], [0, 0 :: int64]]. b \<noteq> []" by simp
  have h3: "int (length (concat [[0, 0, 0], [0, 0, 0, 0, 0, 0], [0, 0 :: int64]]))
      \<le> sint (numValues (after_init std_prims page_two_blocks))
         - i (after_init std_prims page_two_blocks)"
    by code_simp
  show ?thesis using h3 chunking_independent[OF h1 h2 h3] by blast
qed

section \<open>The declared total\<close>




section \<open>The accumulator\<close>






section \<open>End of the stream\<close>





section \<open>Concrete pages\<close>

text \<open>
  C7. The page with block size 8, 1 miniblock per block, 5 values, first value 10,
  followed by a block with min-delta 0 and one width byte 0: \<open>init\<close> succeeds and a call
  with a destination of length 5, whatever it holds, returns no error and leaves
  \<open>[10, 10, 10, 10, 10]\<close>.
\<close>

theorem delta_scenario_five_tens:
  "step_error (int64DeltaBinaryPackedDecoder_init std_prims zero_delta [8, 1, 5, 20, 0, 0])
     = Some None \<and>
   blockSize (after_init std_prims [8, 1, 5, 20, 0, 0]) = 8 \<and>
   miniBlocks (after_init std_prims [8, 1, 5, 20, 0, 0]) = 1 \<and>
   numValues (after_init std_prims [8, 1, 5, 20, 0, 0]) = 5 \<and>
   value' (after_init std_prims [8, 1, 5, 20, 0, 0]) = 10 \<and>
   minDelta (after_init std_prims [8, 1, 5, 20, 0, 0]) = 0 \<and>
   miniBlockWidths (after_init std_prims [8, 1, 5, 20, 0, 0]) = [0] \<and>
   summary (int64DeltaBinaryPackedDecoder_decodeInt64 std_prims
              (after_init std_prims [8, 1, 5, 20, 0, 0]) [x1, x2, x3, x4, x5])
     = Some (6, 5, [10, 10, 10, 10, 10], None)"
  by code_simp

text \<open>
  C8. The plain decoder on the bytes 01 00 00 00 00 00 00 00: a call with a destination
  of length 1 returns no error, writes 1 (the eight bytes read least significant
  first) and moves the cursor to 8; the next call with a destination of length 1
  returns the error \<open>errNED\<close> and writes nothing. On sixteen bytes, two calls' worth,
  the bytes 00 01 00 .. 00 give 256 and FE FF .. FF give -2.
\<close>

theorem plain_scenario:
  "int64PlainDecoder_init d0 [1, 0, 0, 0, 0, 0, 0, 0] =
     (\<lparr>data = [1, 0, 0, 0, 0, 0, 0, 0], pos = 0\<rparr>, None) \<and>
   int64PlainDecoder_decodeInt64 \<lparr>data = [1, 0, 0, 0, 0, 0, 0, 0], pos = 0\<rparr> [x] =
     Done \<lparr>data = [1, 0, 0, 0, 0, 0, 0, 0], pos = 8\<rparr> [1] None \<and>
   int64PlainDecoder_decodeInt64 \<lparr>data = [1, 0, 0, 0, 0, 0, 0, 0], pos = 8\<rparr> [y] =
     Done \<lparr>data = [1, 0, 0, 0, 0, 0, 0, 0], pos = 8\<rparr> [y] (Some ErrNED) \<and>
   int64PlainDecoder_decodeInt64
       \<lparr>data = [0, 1, 0, 0, 0, 0, 0, 0, 0xFE, 0xFF, 0xFF, 0xFF, 0xFF, 0xFF, 0xFF, 0xFF], pos = 0\<rparr>
       [x, y] =
     Done \<lparr>data = [0, 1, 0, 0, 0, 0, 0, 0, 0xFE, 0xFF, 0xFF, 0xFF, 0xFF, 0xFF, 0xFF, 0xFF],
           pos = 16\<rparr> [256, - 2] None"
  by (simp add: int64PlainDecoder_init_def int64PlainDecoder_decodeInt64_def plain_loop.simps
      to_uint_def slice_from_def littleEndianUint64_def)

section \<open>Division by zero and the cursor\<close>

text \<open>
  C10. The claim asks that no page makes the decoder divide by zero. The code has no
  check (its comment says the miniblock count is still to be validated): a page that
  declares 0 miniblocks per block makes \<open>init\<close> panic in the division, and a page whose
  block size is smaller than its miniblock count passes \<open>init\<close> with miniblock size 0
  and makes the first decode call panic in the modulus.
\<close>

theorem header_division_by_zero:
  "step_panic (int64DeltaBinaryPackedDecoder_init std_prims zero_delta page_no_miniblocks)
     = Some DivideByZero \<and>
   step_error (int64DeltaBinaryPackedDecoder_init std_prims zero_delta page_small_block)
     = Some None \<and>
   miniBlockSize (after_init std_prims page_small_block) = 0 \<and>
   outcome_panic (int64DeltaBinaryPackedDecoder_decodeInt64 std_prims
                    (after_init std_prims page_small_block) [0])
     = Some DivideByZero"
  by code_simp

text \<open>
  C5. The claim asks that the cursor never passes the end of the buffer. The skip over
  the tail padding adds to the cursor without the bound check that the group read
  before it makes: on a page of 7 bytes that lacks the padding of its last miniblock
  the call succeeds and leaves the cursor at 8.
\<close>

theorem cursor_past_end_of_buffer:
  "step_error (int64DeltaBinaryPackedDecoder_init std_prims zero_delta page_short_tail)
     = Some None \<and>
   length (data (after_init std_prims page_short_tail)) = 7 \<and>
   summary (int64DeltaBinaryPackedDecoder_decodeInt64 std_prims
              (after_init std_prims page_short_tail) [0, 0, 0, 0, 0])
     = Some (8, 5, [0, 0, 1, 1, 2], None)"
  by code_simp

section \<open>Dictionary keys\<close>

text \<open>
  C1, as amended. When the key decoder returns, without error, a key that is not below
  the length of the value table, the call does not return: the lookup \<open>d.values[k]\<close>
  stops it with Go's index-out-of-range panic. No error value is returned, the table
  is not read outside its bounds, and no clamped value is written.
\<close>

theorem dict_key_out_of_range_panics:
  assumes "decodeKeys (dictDecoder d) (int (length dst)) = (s, keys, None)"
    and "k \<in> set keys" and "int (length (values' d)) \<le> k"
  shows "int64DictDecoder_decodeInt64 decodeKeys d dst = Panic IndexOutOfRange"
  using assms by (simp add: int64DictDecoder_decodeInt64_def dict_fill_out_of_range)


theorem dict_key_out_of_range_panics_witness:
  "int64DictDecoder_decodeInt64 (const_keys [0, 2]) \<lparr>dictDecoder = (), values' = [1, 2]\<rparr> [0, 0]
     = Panic IndexOutOfRange"
proof -
  have h1: "const_keys [0, 2] (dictDecoder \<lparr>dictDecoder = (), values' = [1, 2 :: int64]\<rparr>)
              (int (length [0, 0 :: int64])) = ((), [0, 2], None)"
    by (simp add: const_keys_def)
  have h2: "(2 :: int) \<in> set [0, 2]" by simp
  have h3: "int (length (values' \<lparr>dictDecoder = (), values' = [1, 2 :: int64]\<rparr>)) \<le> 2" by simp
  show ?thesis
    by (rule dict_key_out_of_range_panics[of "const_keys [0, 2]"
          "\<lparr>dictDecoder = (), values' = [1, 2]\<rparr>" "[0, 0]" "()" "[0, 2]" 2, OF h1 h2 h3])
qed

text \<open>The claim as written expects a returned error; the call panics instead.\<close>

theorem dict_key_out_of_range_counterexample:
  "int64DictDecoder_decodeInt64 (const_keys [5]) \<lparr>dictDecoder = (), values' = [1, 2]\<rparr> [0]
     = Panic IndexOutOfRange"
  by (simp add: int64DictDecoder_decodeInt64_def const_keys_def)

section \<open>Dispatch\<close>

text \<open>
  C9, as amended. A call of the dispatch function with a destination of \<open>L\<close> dynamically
  typed slots behaves as the call with a zero-initialised \<open>int64\<close> destination of length
  \<open>L\<close> from the same decoder: the same panic, or else the same decoder, the same error
  and in every slot the boxed value of the typed slot; the slots the decoder did not
  write hold a boxed 0, whatever they held before. A destination of any other type
  makes the function panic.
\<close>

theorem dispatch_refines_typed:
  "(case decodeInt64 dec d (Int64Slice (replicate (length ys) 0)) of
      Panic p \<Rightarrow> decodeInt64 dec d (IfaceSlice ys) = Panic p
    | Done d' dst' e \<Rightarrow>
        (\<exists>b zs. dst' = Int64Slice b \<and>
           decodeInt64 dec d (IfaceSlice ys) = Done d' (IfaceSlice zs) e \<and>
           length zs = length ys \<and> (\<forall>k < length ys. zs ! k = BoxInt64 (b ! k)))) \<and>
   decodeInt64 dec d OtherDest = Panic InvalidArgument"
  by (cases "dec d (replicate (length ys) 0)") (simp_all add: copy_boxed_def)


theorem dispatch_refines_typed_witness:
  "decodeInt64 int64PlainDecoder_decodeInt64 \<lparr>data = [1, 0, 0, 0, 0, 0, 0, 0], pos = 0\<rparr>
     (IfaceSlice [NilIface]) =
   Done \<lparr>data = [1, 0, 0, 0, 0, 0, 0, 0], pos = 8\<rparr> (IfaceSlice [BoxInt64 1]) None"
proof -
  have t: "decodeInt64 int64PlainDecoder_decodeInt64 \<lparr>data = [1, 0, 0, 0, 0, 0, 0, 0], pos = 0\<rparr>
      (Int64Slice (replicate (length [NilIface]) 0)) =
    Done \<lparr>data = [1, 0, 0, 0, 0, 0, 0, 0], pos = 8\<rparr> (Int64Slice [1]) None"
    by (simp add: int64PlainDecoder_decodeInt64_def plain_loop.simps
      to_uint_def slice_from_def littleEndianUint64_def)
  show ?thesis
    using dispatch_refines_typed[of int64PlainDecoder_decodeInt64
        "\<lparr>data = [1, 0, 0, 0, 0, 0, 0, 0], pos = 0\<rparr>" "[NilIface]"]
    unfolding t by (auto simp: length_Suc_conv)
qed

text \<open>Against an \<open>int64\<close> destination that is not zero-initialised the element values
  differ in the slots the decoder does not write: the typed call keeps them, the
  dynamically typed call overwrites them with 0. So it is on a page of 5 values decoded
  into 6 slots, where both calls succeed, and on an empty plain buffer, where both
  return \<open>errNED\<close>.\<close>

theorem dispatch_counterexample:
  "returned (int64DeltaBinaryPackedDecoder_decode std_prims (after_init std_prims page_five_tens)
      (Int64Slice [7, 7, 7, 7, 7, 7]))
     = Some (Int64Slice [10, 10, 10, 10, 10, 7], None) \<and>
   returned (int64DeltaBinaryPackedDecoder_decode std_prims (after_init std_prims page_five_tens)
      (IfaceSlice [BoxInt64 7, BoxInt64 7, BoxInt64 7, BoxInt64 7, BoxInt64 7, BoxInt64 7]))
     = Some (IfaceSlice [BoxInt64 10, BoxInt64 10, BoxInt64 10, BoxInt64 10, BoxInt64 10,
                         BoxInt64 0], None) \<and>
   int64PlainDecoder_decode \<lparr>data = [], pos = 0\<rparr> (Int64Slice [7]) =
     Done \<lparr>data = [], pos = 0\<rparr> (Int64Slice [7]) (Some ErrNED) \<and>
   int64PlainDecoder_decode \<lparr>data = [], pos = 0\<rparr> (IfaceSlice [BoxInt64 7]) =
     Done \<lparr>data = [], pos = 0\<rparr> (IfaceSlice [BoxInt64 0]) (Some ErrNED)"
  by code_simp

end
